theory Spec2Isabelle
  imports Main
begin

section \<open>Values, paths, errors and the file system\<close>

text \<open>
  The module under study is \<^verbatim>\<open>PrepRunFp/RunFp/RunFp.py\<close>: the context manager
  \<^verbatim>\<open>set_directory\<close> and the abstract operator \<^verbatim>\<open>RunFp\<close> with its
  entry point \<^verbatim>\<open>execute\<close>.

  Python values that travel through \<^verbatim>\<open>config\<close> and \<^verbatim>\<open>optional_input\<close>.
  A dictionary is an association list in insertion order.
\<close>

datatype pyval =
    PNone
  | PBool bool
  | PInt int
  | PStr string
  | PList "pyval list"
  | PDict "(string \<times> pyval) list"

text \<open>
  A location in the file system is the list of its components below the root.
  A \<^verbatim>\<open>pathlib.Path\<close> object is pure: a flag "anchored at the root" and its parts.
\<close>

type_synonym path = "string list"

datatype ppath = PPath (is_abs: bool) (parts: "string list")

text \<open>Every exception class that this module raises or lets through.\<close>

datatype error =
    KeyError string
  | AttributeError string
  | FatalError string
  | TransientError string
  | FileExistsError path
  | FileNotFoundError path
  | NotADirectoryError path
  | ArgumentKeyError string
  | ArgumentTypeError string

datatype node = Dir | File | Link path

text \<open>
  The trace is an observation log, not program state: it records every successful
  \<^verbatim>\<open>os.chdir\<close> and every invocation of \<^verbatim>\<open>run_task\<close> with its arguments and
  its outcome.
\<close>

datatype event =
    Chdir path
  | RunTask string string "string list" pyval pyval "error + string"

record world =
  nodes :: "path \<rightharpoonup> node"
  cwd :: path
  trace :: "event list"

text \<open>An entry of the input record: the key is missing, holds \<^verbatim>\<open>None\<close>, or holds a value.\<close>

datatype 'a field = Missing | PyNone | Val 'a

subsection \<open>pathlib\<close>

fun split_slash :: "string \<Rightarrow> string list" where
  "split_slash [] = [[]]"
| "split_slash (c # cs) =
     (if c = CHR ''/'' then [] # split_slash cs
      else (case split_slash cs of
              [] \<Rightarrow> [[c]]
            | x # xs \<Rightarrow> (c # x) # xs))"

text \<open>\<^verbatim>\<open>Path(s)\<close>: empty and \<^verbatim>\<open>.\<close> components are dropped, \<^verbatim>\<open>..\<close> is kept.\<close>

definition Path :: "string \<Rightarrow> ppath" where
  "Path s = PPath (take 1 s = ''/'') (filter (\<lambda>x. x \<noteq> [] \<and> x \<noteq> ''.'') (split_slash s))"

text \<open>\<^verbatim>\<open>p / q\<close>: an anchored right operand replaces the left one.\<close>

definition pjoin :: "ppath \<Rightarrow> ppath \<Rightarrow> ppath" where
  "pjoin p q = (if is_abs q then q else PPath (is_abs p) (parts p @ parts q))"

text \<open>\<^verbatim>\<open>p.name\<close> and \<^verbatim>\<open>str(p)\<close> of a resolved (anchored) path.\<close>

definition path_name :: "path \<Rightarrow> string" where
  "path_name p = (if p = [] then [] else last p)"

definition path_str :: "path \<Rightarrow> string" where
  "path_str p = (if p = [] then ''/'' else concat (map (\<lambda>x. ''/'' @ x) p))"

subsection \<open>The operating system\<close>

text \<open>
  How the operating system finds the location a path names: a relative path starts at
  the current working directory \<open>d\<close> and \<^verbatim>\<open>..\<close> steps to the parent. Symbolic links in
  the middle of a path are not followed; \<^verbatim>\<open>Path.resolve\<close>, which does follow them,
  is a parameter of the model (see \<open>lib\<close> below).
\<close>

fun dotdot :: "string list \<Rightarrow> string list \<Rightarrow> string list" where
  "dotdot acc [] = rev acc"
| "dotdot acc (x # xs) = (if x = ''..'' then dotdot (tl acc) xs else dotdot (x # acc) xs)"

definition locate :: "path \<Rightarrow> ppath \<Rightarrow> path" where
  "locate d p = dotdot [] (if is_abs p then parts p else d @ parts p)"

text \<open>
  \<^verbatim>\<open>os.path.isfile\<close> is only applied to resolved paths, so the node at the location
  decides.
\<close>

definition isfile :: "world \<Rightarrow> path \<Rightarrow> bool" where
  "isfile w p = (nodes w p = Some File)"

definition is_dir :: "world \<Rightarrow> path \<Rightarrow> bool" where
  "is_dir w p = (p = [] \<or> nodes w p = Some Dir)"

text \<open>
  \<^verbatim>\<open>Path.mkdir(exist_ok=True, parents=True)\<close>, on the reversed location: the leaf
  is tried first; an existing directory is accepted, any other existing entry is a
  \<^verbatim>\<open>FileExistsError\<close>; a missing parent is created by the same routine, and a parent
  that is not a directory makes the call fail.
\<close>

fun mkdir_rev :: "(path \<rightharpoonup> node) \<Rightarrow> string list \<Rightarrow> error + (path \<rightharpoonup> node)" where
  "mkdir_rev ns [] = Inr ns"
| "mkdir_rev ns (x # r) =
     (case ns (rev (x # r)) of
        Some Dir \<Rightarrow> Inr ns
      | Some _ \<Rightarrow> Inl (FileExistsError (rev (x # r)))
      | None \<Rightarrow>
          (case mkdir_rev ns r of
             Inl e \<Rightarrow> Inl (NotADirectoryError (rev (x # r)))
           | Inr ns' \<Rightarrow> Inr (ns'(rev (x # r) \<mapsto> Dir))))"

definition mkdir :: "path \<Rightarrow> world \<Rightarrow> (error + unit) \<times> world" where
  "mkdir q w =
     (case mkdir_rev (nodes w) (rev q) of
        Inl e \<Rightarrow> (Inl e, w)
      | Inr ns \<Rightarrow> (Inr (), w\<lparr>nodes := ns\<rparr>))"

text \<open>\<^verbatim>\<open>os.chdir\<close> fails when the target is not a directory.\<close>

definition chdir :: "path \<Rightarrow> world \<Rightarrow> (error + unit) \<times> world" where
  "chdir q w =
     (if is_dir w q then (Inr (), w\<lparr>cwd := q, trace := trace w @ [Chdir q]\<rparr>)
      else if nodes w q = None then (Inl (FileNotFoundError q), w)
      else (Inl (NotADirectoryError q), w))"

text \<open>\<^verbatim>\<open>Path(l).symlink_to(target)\<close> fails when anything exists under the link's name.\<close>

definition symlink_to :: "ppath \<Rightarrow> path \<Rightarrow> world \<Rightarrow> (error + unit) \<times> world" where
  "symlink_to l target w =
     (let q = locate (cwd w) l in
      if q = [] \<or> nodes w q \<noteq> None then (Inl (FileExistsError q), w)
      else (Inr (), w\<lparr>nodes := (nodes w)(q \<mapsto> Link target)\<rparr>))"

section \<open>set_directory\<close>

text \<open>
  \<^verbatim>\<open>
  cwd = Path().absolute()
  path.mkdir(exist_ok=True, parents=True)
  try:
      os.chdir(path)
      yield
  finally:
      os.chdir(cwd)
  \<close>
  The enclosed block is a state transformer that may fail after having changed the
  state. A failure of \<^verbatim>\<open>mkdir\<close> leaves before the \<^verbatim>\<open>try\<close>; a failure of the
  \<^verbatim>\<open>chdir\<close> in the \<^verbatim>\<open>finally\<close> clause replaces whatever the block raised.
\<close>

definition set_directory ::
  "ppath \<Rightarrow> (world \<Rightarrow> (error + 'a) \<times> world) \<Rightarrow> world \<Rightarrow> (error + 'a) \<times> world" where
  "set_directory p body w =
     (let cwd0 = cwd w in
      case mkdir (locate (cwd w) p) w of
        (Inl e, w1) \<Rightarrow> (Inl e, w1)
      | (Inr _, w1) \<Rightarrow>
          (let (r, w2) = (case chdir (locate (cwd w1) p) w1 of
                            (Inl e, w') \<Rightarrow> (Inl e, w')
                          | (Inr _, w') \<Rightarrow> body w')
           in case chdir cwd0 w2 of
                (Inl e, w3) \<Rightarrow> (Inl e, w3)
              | (Inr _, w3) \<Rightarrow> (r, w3)))"

section \<open>RunFp\<close>

text \<open>
  The input record of \<^verbatim>\<open>get_input_sign\<close>. \<^verbatim>\<open>optional_artifact\<close> is declared
  \<^verbatim>\<open>optional=True\<close>, so it may be missing or \<^verbatim>\<open>None\<close>. The decorator
  \<^verbatim>\<open>OP.exec_sign_check\<close> belongs to the workflow framework and is not modelled: the
  functions below are the body of the module's own code.
\<close>

record opio =
  task_name :: string
  task_path :: ppath
  backward_list :: "string list"
  log_name :: string
  backward_dir_name :: string
  config :: "(string \<times> pyval) list"
  optional_artifact :: "((string \<times> ppath) list) field"
  optional_input :: pyval

text \<open>
  The three abstract methods of a concrete task type. \<^verbatim>\<open>run_task\<close> runs in the
  staged directory and may change the file system and fail.
\<close>

record 'a task_type =
  input_files :: "string list"
  run_task :: "string \<Rightarrow> string \<Rightarrow> string list \<Rightarrow> pyval \<Rightarrow> pyval \<Rightarrow> world
                 \<Rightarrow> (error + string) \<times> world"
  args :: "'a list"

text \<open>
  The library functions whose code is not part of the module: of \<^verbatim>\<open>dargs\<close>,
  \<^verbatim>\<open>Argument("base", dict, ta).normalize_value(data, trim_pattern="_*")\<close> and
  \<^verbatim>\<open>.check_value(data, strict=strict)\<close>; of \<^verbatim>\<open>pathlib\<close>, \<^verbatim>\<open>Path.resolve\<close>.
\<close>

record 'a lib =
  normalize_value :: "'a list \<Rightarrow> pyval \<Rightarrow> error + pyval"
  check_value :: "'a list \<Rightarrow> pyval \<Rightarrow> bool \<Rightarrow> error option"
  resolve :: "world \<Rightarrow> ppath \<Rightarrow> path"

text \<open>
  \<^verbatim>\<open>normalize_config(cls, data: Dict = {}, strict: bool = True)\<close>; an argument that
  the caller leaves out is \<open>None\<close> and takes the declared default.
\<close>

definition normalize_config ::
  "'a lib \<Rightarrow> 'a task_type \<Rightarrow> pyval option \<Rightarrow> bool option \<Rightarrow> error + pyval" where
  "normalize_config L T data_arg strict_arg =
     (let data = (case data_arg of None \<Rightarrow> PDict [] | Some d \<Rightarrow> d);
          strict = (case strict_arg of None \<Rightarrow> True | Some s \<Rightarrow> s);
          ta = args T
      in case normalize_value L ta data of
           Inl e \<Rightarrow> Inl e
         | Inr data' \<Rightarrow>
             (case check_value L ta data' strict of
                Some e \<Rightarrow> Inl e
              | None \<Rightarrow> Inr data'))"

text \<open>The two loops that link the input files (lines 214 to 222).\<close>

fun link_mandatory :: "path list \<Rightarrow> world \<Rightarrow> (error + unit) \<times> world" where
  "link_mandatory [] w = (Inr (), w)"
| "link_mandatory (ii # rest) w =
     (if \<not> isfile w ii then (Inl (FatalError (''cannot file file '' @ path_str ii)), w)
      else (case symlink_to (Path (path_name ii)) ii w of
              (Inl e, w') \<Rightarrow> (Inl e, w')
            | (Inr _, w') \<Rightarrow> link_mandatory rest w'))"

fun link_optional :: "path list \<Rightarrow> world \<Rightarrow> (error + unit) \<times> world" where
  "link_optional [] w = (Inr (), w)"
| "link_optional (ii # rest) w =
     (if isfile w ii then
        (case symlink_to (Path (path_name ii)) ii w of
           (Inl e, w') \<Rightarrow> (Inl e, w')
         | (Inr _, w') \<Rightarrow> link_optional rest w')
      else link_optional rest w)"

text \<open>The call of \<^verbatim>\<open>run_task\<close>, logged in the trace whatever the task does.\<close>

definition call_run_task ::
  "'a task_type \<Rightarrow> string \<Rightarrow> string \<Rightarrow> string list \<Rightarrow> pyval \<Rightarrow> pyval \<Rightarrow> world
     \<Rightarrow> (error + string) \<times> world" where
  "call_run_task T bdn ln bl rc oi w =
     (let (r, w') = run_task T bdn ln bl rc oi w
      in (r, w'\<lparr>trace := trace w @ [RunTask bdn ln bl rc oi r]\<rparr>))"

text \<open>The body of the \<^verbatim>\<open>with set_directory(work_dir)\<close> block.\<close>

definition stage_and_run ::
  "'a task_type \<Rightarrow> path list \<Rightarrow> path list \<Rightarrow> string \<Rightarrow> string \<Rightarrow> string list \<Rightarrow> pyval
     \<Rightarrow> pyval \<Rightarrow> world \<Rightarrow> (error + string) \<times> world" where
  "stage_and_run T inp opt bdn ln bl rc oi w =
     (case link_mandatory inp w of
        (Inl e, w1) \<Rightarrow> (Inl e, w1)
      | (Inr _, w1) \<Rightarrow>
          (case link_optional opt w1 of
             (Inl e, w2) \<Rightarrow> (Inl e, w2)
           | (Inr _, w2) \<Rightarrow> call_run_task T bdn ln bl rc oi w2))"

text \<open>
  \<^verbatim>\<open>execute\<close>, statement by statement. The result is the value of the output field
  \<^verbatim>\<open>backward_dir\<close>.
\<close>

definition execute ::
  "'a lib \<Rightarrow> 'a task_type \<Rightarrow> opio \<Rightarrow> world \<Rightarrow> (error + ppath) \<times> world" where
  "execute L T ip w =
     (case map_of (config ip) ''run'' of
        None \<Rightarrow> (Inl (KeyError ''run''), w)
      | Some v \<Rightarrow>
          (case normalize_config L T (Some (if v \<noteq> PNone then v else PDict [])) (Some False) of
             Inl e \<Rightarrow> (Inl e, w)
           | Inr run_config \<Rightarrow>
               (let inp = map (\<lambda>ii. resolve L w (pjoin (task_path ip) (Path ii))) (input_files T);
                    work_dir = Path (task_name ip)
                in case optional_artifact ip of
                     Missing \<Rightarrow> (Inl (KeyError ''optional_artifact''), w)
                   | PyNone \<Rightarrow> (Inl (AttributeError ''items''), w)
                   | Val d \<Rightarrow>
                       (let opt = map (\<lambda>ii. resolve L w (pjoin (task_path ip) (Path ii)))
                                      (map fst d)
                        in case set_directory work_dir
                                  (stage_and_run T inp opt (backward_dir_name ip) (log_name ip)
                                     (backward_list ip) run_config (optional_input ip)) w of
                             (Inl e, w') \<Rightarrow> (Inl e, w')
                           | (Inr bdn, w') \<Rightarrow> (Inr (pjoin work_dir (Path bdn)), w')))))"

section \<open>Observations\<close>

text \<open>How often \<^verbatim>\<open>run_task\<close> has been invoked, read off the trace.\<close>

fun is_run_task :: "event \<Rightarrow> bool" where
  "is_run_task (RunTask bdn ln bl rc oi r) = True"
| "is_run_task (Chdir q) = False"

definition run_task_calls :: "event list \<Rightarrow> nat" where
  "run_task_calls tr = length (filter is_run_task tr)"

text \<open>
  Where the link for the input file \<open>ii\<close> is created when the working directory is
  \<open>d\<close>: this is the location that \<^verbatim>\<open>Path(ii.name)\<close> names there.
\<close>

definition link_loc :: "path \<Rightarrow> path \<Rightarrow> path" where
  "link_loc d ii = locate d (Path (path_name ii))"


text \<open>The world right after a successful \<^verbatim>\<open>os.chdir\<close> to \<open>q\<close>.\<close>

definition entered :: "path \<Rightarrow> world \<Rightarrow> world" where
  "entered q w = w\<lparr>cwd := q, trace := trace w @ [Chdir q]\<rparr>"

text \<open>
  The resolved mandatory and optional input files of lines 205 and 210, and the
  location of the staging directory \<^verbatim>\<open>Path(task_name)\<close>.
\<close>

definition input_path :: "'a lib \<Rightarrow> opio \<Rightarrow> world \<Rightarrow> string \<Rightarrow> path" where
  "input_path L ip w ii = resolve L w (pjoin (task_path ip) (Path ii))"

definition mandatory_paths :: "'a lib \<Rightarrow> 'a task_type \<Rightarrow> opio \<Rightarrow> world \<Rightarrow> path list" where
  "mandatory_paths L T ip w = map (input_path L ip w) (input_files T)"

definition optional_paths :: "'a lib \<Rightarrow> opio \<Rightarrow> world \<Rightarrow> string list \<Rightarrow> path list" where
  "optional_paths L ip w ks = map (input_path L ip w) ks"

definition work_dir_loc :: "opio \<Rightarrow> world \<Rightarrow> path" where
  "work_dir_loc ip w = locate (cwd w) (Path (task_name ip))"


definition input_error :: "'a lib \<Rightarrow> 'a task_type \<Rightarrow> opio \<Rightarrow> error \<Rightarrow> bool" where
  "input_error L T ip e =
     (case map_of (config ip) ''run'' of
        None \<Rightarrow> e = KeyError ''run''
      | Some v \<Rightarrow>
          (case normalize_config L T (Some (if v \<noteq> PNone then v else PDict [])) (Some False) of
             Inl e' \<Rightarrow> e = e'
           | Inr rc \<Rightarrow>
               (case optional_artifact ip of
                  Missing \<Rightarrow> e = KeyError ''optional_artifact''
                | PyNone \<Rightarrow> e = AttributeError ''items''
                | Val d \<Rightarrow> False)))"

section \<open>A concrete task type and concrete worlds\<close>

text \<open>
  A small stand-in for \<^verbatim>\<open>dargs\<close> on flat schemas: an argument is a name with an
  optional default. Normalising fills the defaults of missing keys and trims undeclared
  keys that start with an underscore; checking wants a dictionary with every argument
  that has no default, and in strict mode rejects undeclared keys.
\<close>

fun flat_normalize_value :: "(string \<times> pyval option) list \<Rightarrow> pyval \<Rightarrow> error + pyval" where
  "flat_normalize_value ta (PDict kvs) =
     Inr (PDict (filter (\<lambda>(k, v). k \<in> set (map fst ta) \<or> take 1 k \<noteq> ''_'') kvs
                 @ concat (map (\<lambda>(k, dflt). case dflt of
                                    None \<Rightarrow> []
                                  | Some v \<Rightarrow> (if k \<in> set (map fst kvs) then [] else [(k, v)])) ta)))"
| "flat_normalize_value ta v = Inr v"

fun flat_check_value :: "(string \<times> pyval option) list \<Rightarrow> pyval \<Rightarrow> bool \<Rightarrow> error option" where
  "flat_check_value ta (PDict kvs) strict =
     (case filter (\<lambda>(k, dflt). k \<notin> set (map fst kvs)) ta of
        (k, dflt) # rest \<Rightarrow> Some (ArgumentKeyError k)
      | [] \<Rightarrow>
          (if strict then
             (case filter (\<lambda>(k, v). k \<notin> set (map fst ta)) kvs of
                (k, v) # rest \<Rightarrow> Some (ArgumentKeyError k)
              | [] \<Rightarrow> None)
           else None))"
| "flat_check_value ta v strict = Some (ArgumentTypeError ''base'')"

text \<open>Without symbolic links, \<^verbatim>\<open>Path.resolve\<close> is where the operating system looks.\<close>

definition plain_lib :: "(string \<times> pyval option) lib" where
  "plain_lib = \<lparr>normalize_value = flat_normalize_value, check_value = flat_check_value,
                resolve = (\<lambda>w p. locate (cwd w) p)\<rparr>"

text \<open>
  A task that creates the output directory with the log file in it and returns the
  directory name it was asked for.
\<close>

definition log_task ::
  "string \<Rightarrow> string \<Rightarrow> string list \<Rightarrow> pyval \<Rightarrow> pyval \<Rightarrow> world \<Rightarrow> (error + string) \<times> world" where
  "log_task bdn ln bl rc oi w =
     (case mkdir (locate (cwd w) (Path bdn)) w of
        (Inl e, w1) \<Rightarrow> (Inl e, w1)
      | (Inr u, w1) \<Rightarrow>
          (Inr bdn, w1\<lparr>nodes := (nodes w1)(locate (cwd w1) (pjoin (Path bdn) (Path ln)) \<mapsto> File)\<rparr>))"

definition poscar_task :: "(string \<times> pyval option) task_type" where
  "poscar_task = \<lparr>input_files = [''POSCAR''], run_task = log_task,
                  args = [(''command'', Some (PStr ''vasp''))]\<rparr>"


text \<open>A task that answers with another directory name than the one requested.\<close>

definition renaming_task :: "(string \<times> pyval option) task_type" where
  "renaming_task = \<lparr>input_files = [''POSCAR''],
                    run_task = (\<lambda>bdn ln bl rc oi w. (Inr ''results'', w)),
                    args = []\<rparr>"

text \<open>
  The caller stands in \<^verbatim>\<open>/work\<close>; the prepared task directory \<^verbatim>\<open>/in/task.000\<close>
  holds \<^verbatim>\<open>POSCAR\<close> and \<^verbatim>\<open>extra.json\<close>.
\<close>

definition world0 :: world where
  "world0 = \<lparr>nodes = map_of [([''work''], Dir), ([''in''], Dir), ([''in'', ''task.000''], Dir),
                              ([''in'', ''task.000'', ''POSCAR''], File),
                              ([''in'', ''task.000'', ''extra.json''], File)],
             cwd = [''work''], trace = []\<rparr>"

definition ip0 :: opio where
  "ip0 = \<lparr>task_name = ''task.000'', task_path = PPath True [''in'', ''task.000''],
          backward_list = [''OUTCAR''], log_name = ''log'', backward_dir_name = ''backward_dir'',
          config = [(''run'', PDict [])],
          optional_artifact = Val [(''aux'', PPath True [''in'', ''task.000'', ''extra.json''])],
          optional_input = PDict []\<rparr>"




text \<open>The world that a first, successful run of the task leaves behind.\<close>

definition world_after_run :: world where
  "world_after_run = snd (execute plain_lib poscar_task ip0 world0)"


section \<open>Auxiliary facts about the file system and the linking loops\<close>



lemma mkdir_rev_dir: "mkdir_rev ns r = Inr ns' \<Longrightarrow> r \<noteq> [] \<Longrightarrow> ns' (rev r) = Some Dir"
  by (cases r) (auto split: option.splits node.splits sum.splits)

lemma mkdir_rev_existing: "ns (rev r) = Some Dir \<Longrightarrow> mkdir_rev ns r = Inr ns"
  by (cases r) auto

lemma mkdir_rev_error:
  "mkdir_rev ns r = Inl e \<Longrightarrow> e = FileExistsError (rev r) \<or> e = NotADirectoryError (rev r)"
  by (cases r) (auto split: option.splits node.splits sum.splits)

lemma mkdir_frame: "mkdir q w = (r, w') \<Longrightarrow> cwd w' = cwd w \<and> trace w' = trace w"
  by (auto simp: mkdir_def split: sum.splits)

lemma mkdir_fail: "mkdir q w = (Inl e, w') \<Longrightarrow>
  w' = w \<and> (e = FileExistsError q \<or> e = NotADirectoryError q)"
  by (auto simp: mkdir_def split: sum.splits dest: mkdir_rev_error)

lemma mkdir_ok_is_dir: "mkdir q w = (Inr u, w') \<Longrightarrow> is_dir w' q"
  by (cases "q = []") (auto simp: mkdir_def is_dir_def split: sum.splits dest: mkdir_rev_dir)



lemma mkdir_existing: "nodes w q = Some Dir \<Longrightarrow> mkdir q w = (Inr (), w)"
  by (simp add: mkdir_def mkdir_rev_existing)

lemma chdir_ok: "is_dir w q \<Longrightarrow> chdir q w = (Inr (), w\<lparr>cwd := q, trace := trace w @ [Chdir q]\<rparr>)"
  by (simp add: chdir_def)

lemma chdir_fail: "\<not> is_dir w q \<Longrightarrow>
  chdir q w = (Inl (if nodes w q = None then FileNotFoundError q else NotADirectoryError q), w)"
  by (simp add: chdir_def)


lemma symlink_to_fail:
  "locate (cwd w) l = [] \<or> nodes w (locate (cwd w) l) \<noteq> None \<Longrightarrow>
   symlink_to l t w = (Inl (FileExistsError (locate (cwd w) l)), w)"
  by (auto simp: symlink_to_def)

lemma symlink_to_frame:
  "symlink_to l t w = (r, w') \<Longrightarrow>
   cwd w' = cwd w \<and> trace w' = trace w \<and> isfile w' = isfile w \<and>
   (\<forall>q. nodes w q \<noteq> None \<longrightarrow> nodes w' q = nodes w q)"
  by (auto simp: symlink_to_def Let_def isfile_def fun_eq_iff split: if_splits)

lemma link_mandatory_frame:
  "link_mandatory ps w = (r, w') \<Longrightarrow>
   cwd w' = cwd w \<and> trace w' = trace w \<and> isfile w' = isfile w \<and>
   (\<forall>q. nodes w q \<noteq> None \<longrightarrow> nodes w' q = nodes w q)"
proof (induction ps arbitrary: w)
  case Nil
  then show ?case by simp
next
  case (Cons p ps)
  show ?case
  proof (cases "isfile w p")
    case False
    with Cons.prems show ?thesis by simp
  next
    case True
    obtain r1 w1 where s: "symlink_to (Path (path_name p)) p w = (r1, w1)"
      by (cases "symlink_to (Path (path_name p)) p w")
    note f1 = symlink_to_frame [OF s]
    show ?thesis
    proof (cases r1)
      case (Inl e)
      with True s Cons.prems f1 show ?thesis by simp
    next
      case (Inr u)
      with True s Cons.prems have "link_mandatory ps w1 = (r, w')" by simp
      from Cons.IH [OF this] f1 show ?thesis by auto
    qed
  qed
qed

lemma link_optional_mandatory:
  "link_optional ps w = link_mandatory (filter (isfile w) ps) w"
proof (induction ps arbitrary: w)
  case Nil
  then show ?case by simp
next
  case (Cons p ps)
  show ?case
  proof (cases "isfile w p")
    case False
    then show ?thesis by (simp add: Cons.IH)
  next
    case True
    obtain r1 w1 where s: "symlink_to (Path (path_name p)) p w = (r1, w1)"
      by (cases "symlink_to (Path (path_name p)) p w")
    from symlink_to_frame [OF s] have "isfile w1 = isfile w" by simp
    with True s show ?thesis by (cases r1) (simp_all add: Cons.IH)
  qed
qed




lemma link_mandatory_append:
  "link_mandatory ps w = (Inr u, w1) \<Longrightarrow> link_mandatory (ps @ qs) w = link_mandatory qs w1"
proof (induction ps arbitrary: w)
  case Nil
  then show ?case by simp
next
  case (Cons p ps)
  then show ?case by (auto split: if_splits prod.splits sum.splits)
qed

lemma link_mandatory_stale:
  "\<forall>p\<in>set ps. isfile w p \<Longrightarrow>
   \<exists>p\<in>set ps. link_loc (cwd w) p = [] \<or> nodes w (link_loc (cwd w) p) \<noteq> None \<Longrightarrow>
   \<exists>q w'. link_mandatory ps w = (Inl (FileExistsError q), w')"
proof (induction ps arbitrary: w)
  case Nil
  then show ?case by simp
next
  case (Cons p ps)
  obtain r1 w1 where s: "symlink_to (Path (path_name p)) p w = (r1, w1)"
    by (cases "symlink_to (Path (path_name p)) p w")
  note f1 = symlink_to_frame [OF s]
  show ?case
  proof (cases r1)
    case (Inl e1)
    with s have "\<exists>q. e1 = FileExistsError q"
      by (auto simp: symlink_to_def Let_def split: if_splits)
    with Inl s Cons.prems(1) show ?thesis by auto
  next
    case (Inr u)
    with s have free: "link_loc (cwd w) p \<noteq> [] \<and> nodes w (link_loc (cwd w) p) = None"
      by (auto simp: symlink_to_def Let_def link_loc_def split: if_splits)
    with Cons.prems(2) obtain x where x: "x \<in> set ps"
      "link_loc (cwd w) x = [] \<or> nodes w (link_loc (cwd w) x) \<noteq> None" by auto
    with f1 have "link_loc (cwd w1) x = [] \<or> nodes w1 (link_loc (cwd w1) x) \<noteq> None"
      by auto
    with x(1) have a2: "\<exists>p\<in>set ps. link_loc (cwd w1) p = [] \<or> nodes w1 (link_loc (cwd w1) p) \<noteq> None"
      by blast
    from Cons.prems(1) f1 have a1: "\<forall>p\<in>set ps. isfile w1 p" by simp
    from Cons.IH [OF a1 a2] Cons.prems(1) s Inr show ?thesis by simp
  qed
qed

lemma run_task_calls_append [simp]:
  "run_task_calls (xs @ ys) = run_task_calls xs + run_task_calls ys"
  by (simp add: run_task_calls_def)

lemma run_task_calls_simps [simp]:
  "run_task_calls [] = 0"
  "run_task_calls (Chdir q # tr) = run_task_calls tr"
  "run_task_calls (RunTask bdn ln bl rc oi r # tr) = Suc (run_task_calls tr)"
  by (simp_all add: run_task_calls_def)

lemma entered_simps [simp]:
  "cwd (entered q w) = q"
  "trace (entered q w) = trace w @ [Chdir q]"
  "nodes (entered q w) = nodes w"
  "isfile (entered q w) = isfile w"
  "is_dir (entered q w) = is_dir w"
  by (simp_all add: entered_def isfile_def is_dir_def fun_eq_iff)

lemma set_directory_mkdir_fail:
  "mkdir (locate (cwd w) p) w = (Inl e, w1) \<Longrightarrow> set_directory p body w = (Inl e, w)"
  by (auto simp: set_directory_def dest: mkdir_fail)

lemma set_directory_run:
  assumes m: "mkdir (locate (cwd w) p) w = (Inr u, w1)"
    and b: "body (entered (locate (cwd w) p) w1) = (r, w2)"
  shows "set_directory p body w =
    (if is_dir w2 (cwd w) then (r, entered (cwd w) w2)
     else (Inl (if nodes w2 (cwd w) = None then FileNotFoundError (cwd w)
                else NotADirectoryError (cwd w)), w2))"
proof -
  let ?q = "locate (cwd w) p"
  from mkdir_frame [OF m] have c: "cwd w1 = cwd w" by simp
  from mkdir_ok_is_dir [OF m] have "is_dir w1 ?q" .
  then have ch: "chdir (locate (cwd w1) p) w1 = (Inr (), entered ?q w1)"
    by (simp add: chdir_ok c entered_def)
  have ret: "chdir (cwd w) w2 =
    (if is_dir w2 (cwd w) then (Inr (), entered (cwd w) w2)
     else (Inl (if nodes w2 (cwd w) = None then FileNotFoundError (cwd w)
                else NotADirectoryError (cwd w)), w2))"
    by (simp add: chdir_def entered_def)
  have "set_directory p body w =
    (case chdir (cwd w) w2 of (Inl e, w3) \<Rightarrow> (Inl e, w3) | (Inr x, w3) \<Rightarrow> (r, w3))"
    by (simp add: set_directory_def m ch b)
  then show ?thesis unfolding ret by simp
qed

lemma link_optional_frame:
  "link_optional ps w = (r, w') \<Longrightarrow>
   cwd w' = cwd w \<and> trace w' = trace w \<and> isfile w' = isfile w \<and>
   (\<forall>q. nodes w q \<noteq> None \<longrightarrow> nodes w' q = nodes w q)"
  unfolding link_optional_mandatory by (rule link_mandatory_frame)

lemma call_run_task_trace:
  "call_run_task T bdn ln bl rc oi w = (r, w') \<Longrightarrow>
   trace w' = trace w @ [RunTask bdn ln bl rc oi r]"
  by (auto simp: call_run_task_def split: prod.splits)

lemma stage_and_run_trace:
  "stage_and_run T inp opt bdn ln bl rc oi w = (r, w') \<Longrightarrow>
   trace w' = trace w \<and> (\<exists>e. r = Inl e) \<or> trace w' = trace w @ [RunTask bdn ln bl rc oi r]"
  by (auto simp: stage_and_run_def split: prod.splits sum.splits
           dest!: link_mandatory_frame link_optional_frame call_run_task_trace)

lemma link_mandatory_append_fail:
  "link_mandatory ps w = (Inl e, w1) \<Longrightarrow> link_mandatory (ps @ qs) w = (Inl e, w1)"
proof (induction ps arbitrary: w)
  case Nil
  then show ?case by simp
next
  case (Cons p ps)
  then show ?case by (auto split: if_splits prod.splits sum.splits)
qed

lemma stage_and_run_links:
  "stage_and_run T inp opt bdn ln bl rc oi w =
     (case link_mandatory (inp @ filter (isfile w) opt) w of
        (Inl e, w') \<Rightarrow> (Inl e, w')
      | (Inr u, w') \<Rightarrow> call_run_task T bdn ln bl rc oi w')"
proof -
  obtain r1 w1 where l: "link_mandatory inp w = (r1, w1)" by (cases "link_mandatory inp w")
  show ?thesis
  proof (cases r1)
    case (Inl e)
    with l link_mandatory_append_fail [of inp w e w1] show ?thesis
      by (simp add: stage_and_run_def)
  next
    case (Inr u)
    from link_mandatory_frame [OF l] have same: "isfile w1 = isfile w" by simp
    from l Inr have "link_mandatory (inp @ filter (isfile w) opt) w =
      link_mandatory (filter (isfile w) opt) w1"
      by (simp add: link_mandatory_append)
    with l Inr same show ?thesis
      by (simp add: stage_and_run_def link_optional_mandatory)
  qed
qed



lemma execute_staged:
  assumes "map_of (config ip) ''run'' = Some v"
    and "normalize_config L T (Some (if v \<noteq> PNone then v else PDict [])) (Some False) = Inr rc"
    and "optional_artifact ip = Val d"
  shows "execute L T ip w =
    (case set_directory (Path (task_name ip))
            (stage_and_run T (mandatory_paths L T ip w) (optional_paths L ip w (map fst d))
               (backward_dir_name ip) (log_name ip) (backward_list ip) rc (optional_input ip)) w of
       (Inl e, w') \<Rightarrow> (Inl e, w')
     | (Inr bdn, w') \<Rightarrow> (Inr (pjoin (Path (task_name ip)) (Path bdn)), w'))"
  using assms by (simp add: execute_def mandatory_paths_def optional_paths_def input_path_def [abs_def] comp_def Let_def)

lemma execute_input_error:
  "input_error L T ip e \<Longrightarrow> execute L T ip w = (Inl e, w)"
  by (auto simp: input_error_def execute_def split: option.splits sum.splits field.splits)

lemma execute_cases:
  obtains (input) e where "input_error L T ip e"
  | (staged) v rc d where "map_of (config ip) ''run'' = Some v"
      "normalize_config L T (Some (if v \<noteq> PNone then v else PDict [])) (Some False) = Inr rc"
      "optional_artifact ip = Val d"
proof (cases "map_of (config ip) ''run''")
  case None
  then have "input_error L T ip (KeyError ''run'')" by (simp add: input_error_def)
  then show ?thesis by (rule input)
next
  case (Some v)
  show ?thesis
  proof (cases "normalize_config L T (Some (if v \<noteq> PNone then v else PDict [])) (Some False)")
    case (Inl e)
    with Some have "input_error L T ip e" by (simp add: input_error_def)
    then show ?thesis by (rule input)
  next
    case (Inr rc)
    show ?thesis
    proof (cases "optional_artifact ip")
      case Missing
      with Some Inr have "input_error L T ip (KeyError ''optional_artifact'')"
        by (simp add: input_error_def)
      then show ?thesis by (rule input)
    next
      case PyNone
      with Some Inr have "input_error L T ip (AttributeError ''items'')"
        by (simp add: input_error_def)
      then show ?thesis by (rule input)
    next
      case (Val d)
      with Some Inr show ?thesis by (rule staged)
    qed
  qed
qed


text \<open>The world after a first run, written out.\<close>

lemma world_after_run_eq:
  "world_after_run =
     \<lparr>nodes = (nodes world0)
        ([''work'', ''task.000''] \<mapsto> Dir,
         [''work'', ''task.000'', ''POSCAR''] \<mapsto> Link [''in'', ''task.000'', ''POSCAR''],
         [''work'', ''task.000'', ''backward_dir''] \<mapsto> Dir,
         [''work'', ''task.000'', ''backward_dir'', ''log''] \<mapsto> File),
      cwd = [''work''],
      trace = [Chdir [''work'', ''task.000''],
               RunTask ''backward_dir'' ''log'' [''OUTCAR''] (PDict [(''command'', PStr ''vasp'')])
                 (PDict []) (Inr ''backward_dir''),
               Chdir [''work'']]\<rparr>"
  by (simp add: world_after_run_def execute_def set_directory_def stage_and_run_def
        call_run_task_def normalize_config_def mkdir_def chdir_def symlink_to_def isfile_def
        is_dir_def locate_def Path_def pjoin_def path_name_def path_str_def Let_def
        plain_lib_def poscar_task_def log_task_def world0_def ip0_def)

section \<open>Missing mandatory files\<close>




section \<open>Optional artifacts\<close>




section \<open>The run configuration\<close>

text \<open>
  C3. When \<^verbatim>\<open>config\<close> has no key \<^verbatim>\<open>run\<close>, \<^verbatim>\<open>execute\<close> raises
  \<^verbatim>\<open>KeyError\<close> and changes nothing; only when the key holds \<^verbatim>\<open>None\<close> is the run
  configuration the empty mapping.
\<close>

theorem execute_config_run_absent_or_null:
  "(map_of (config ip) ''run'' = None \<longrightarrow> execute L T ip w = (Inl (KeyError ''run''), w)) \<and>
   (map_of (config ip) ''run'' = Some PNone \<longrightarrow>
      execute L T ip w = execute L T (ip\<lparr>config := [(''run'', PDict [])]\<rparr>) w)"
  by (simp add: execute_def Let_def split: sum.splits field.splits)

text \<open>
  The declared default \<^verbatim>\<open>config = {}\<close> fails, \<^verbatim>\<open>{"run": None}\<close> runs like
  \<^verbatim>\<open>{"run": {}}\<close>.
\<close>

theorem execute_config_run_absent_or_null_witness:
  "execute plain_lib poscar_task (ip0\<lparr>config := []\<rparr>) world0 = (Inl (KeyError ''run''), world0) \<and>
   execute plain_lib poscar_task (ip0\<lparr>config := [(''run'', PNone)]\<rparr>) world0 =
     execute plain_lib poscar_task (ip0\<lparr>config := [(''run'', PDict [])]\<rparr>) world0 \<and>
   fst (execute plain_lib poscar_task (ip0\<lparr>config := [(''run'', PDict [])]\<rparr>) world0) =
     Inr (PPath False [''task.000'', ''backward_dir''])"
proof -
  have a: "map_of (config (ip0\<lparr>config := []\<rparr>)) ''run'' = None" by simp
  have b: "map_of (config (ip0\<lparr>config := [(''run'', PNone)]\<rparr>)) ''run'' = Some PNone" by simp
  from execute_config_run_absent_or_null [of "ip0\<lparr>config := []\<rparr>" plain_lib poscar_task world0] a
  have 1: "execute plain_lib poscar_task (ip0\<lparr>config := []\<rparr>) world0 = (Inl (KeyError ''run''), world0)"
    by blast
  from execute_config_run_absent_or_null
         [of "ip0\<lparr>config := [(''run'', PNone)]\<rparr>" plain_lib poscar_task world0] b
  have 2: "execute plain_lib poscar_task (ip0\<lparr>config := [(''run'', PNone)]\<rparr>) world0 =
     execute plain_lib poscar_task (ip0\<lparr>config := [(''run'', PDict [])]\<rparr>) world0"
    by simp
  have 3: "fst (execute plain_lib poscar_task (ip0\<lparr>config := [(''run'', PDict [])]\<rparr>) world0) =
     Inr (PPath False [''task.000'', ''backward_dir''])"
    by (simp add: execute_def set_directory_def stage_and_run_def call_run_task_def
          normalize_config_def mkdir_def chdir_def symlink_to_def isfile_def is_dir_def
          locate_def Path_def pjoin_def path_name_def path_str_def Let_def plain_lib_def
          poscar_task_def log_task_def world0_def ip0_def)
  from 1 2 3 show ?thesis by blast
qed

section \<open>The scoped working directory\<close>




section \<open>The output\<close>

text \<open>
  C5. Every successful \<^verbatim>\<open>execute\<close> has changed into the staging directory, invoked
  \<^verbatim>\<open>run_task\<close> once, with the requested directory name and the normalised run
  configuration, and changed back; its output is \<^verbatim>\<open>Path(task_name)\<close> joined with the
  name that \<^verbatim>\<open>run_task\<close> returned (for a relative name: the parts of the task name
  followed by the parts of the returned name), and the working directory is the caller's
  again, so that the output is relative to where the caller stands.
\<close>

theorem execute_returns_task_dir:
  assumes ok: "execute L T ip w = (Inr out, w')"
  shows "\<exists>v rc d.
      map_of (config ip) ''run'' = Some v \<and>
      normalize_config L T (Some (if v \<noteq> PNone then v else PDict [])) (Some False) = Inr rc \<and>
      trace w' = trace w @ [Chdir (work_dir_loc ip w),
                            RunTask (backward_dir_name ip) (log_name ip) (backward_list ip) rc
                              (optional_input ip) (Inr d),
                            Chdir (cwd w)] \<and>
      out = pjoin (Path (task_name ip)) (Path d) \<and>
      (\<not> is_abs (Path d) \<longrightarrow>
         out = PPath (is_abs (Path (task_name ip))) (parts (Path (task_name ip)) @ parts (Path d))) \<and>
      cwd w' = cwd w"
proof (cases rule: execute_cases [of L T ip])
  case (input e)
  from execute_input_error [OF this, of w] ok show ?thesis by simp
next
  case (staged v rc d)
  let ?q = "locate (cwd w) (Path (task_name ip))"
  let ?body = "stage_and_run T (mandatory_paths L T ip w) (optional_paths L ip w (map fst d))
     (backward_dir_name ip) (log_name ip) (backward_list ip) rc (optional_input ip)"
  note ex = execute_staged [OF staged, of w]
  obtain rm w1 where m: "mkdir ?q w = (rm, w1)" by (cases "mkdir ?q w")
  show ?thesis
  proof (cases rm)
    case (Inl e)
    with m have "set_directory (Path (task_name ip)) ?body w = (Inl e, w)"
      by (simp add: set_directory_mkdir_fail)
    with ex ok show ?thesis by simp
  next
    case (Inr u)
    with m have m': "mkdir ?q w = (Inr u, w1)" by simp
    from mkdir_frame [OF m] have tr: "trace w1 = trace w" by simp
    obtain rb w2 where b: "?body (entered ?q w1) = (rb, w2)" by (cases "?body (entered ?q w1)")
    note sd = set_directory_run [where body = "?body", OF m' b]
    show ?thesis
    proof (cases "is_dir w2 (cwd w)")
      case False
      with sd ex ok show ?thesis by simp
    next
      case True
      with sd have sd': "set_directory (Path (task_name ip)) ?body w = (rb, entered (cwd w) w2)"
        by simp
      show ?thesis
      proof (cases rb)
        case (Inl e)
        with sd' ex ok show ?thesis by simp
      next
        case (Inr dn)
        with sd' ex ok have o: "out = pjoin (Path (task_name ip)) (Path dn)"
          and w': "w' = entered (cwd w) w2" by simp_all
        from stage_and_run_trace [OF b] Inr
        have "trace w2 = trace (entered ?q w1) @
                [RunTask (backward_dir_name ip) (log_name ip) (backward_list ip) rc
                   (optional_input ip) (Inr dn)]" by auto
        with w' tr have "trace w' = trace w @ [Chdir (work_dir_loc ip w),
             RunTask (backward_dir_name ip) (log_name ip) (backward_list ip) rc
               (optional_input ip) (Inr dn), Chdir (cwd w)]"
          by (simp add: work_dir_loc_def)
        moreover have "\<not> is_abs (Path dn) \<longrightarrow>
            out = PPath (is_abs (Path (task_name ip))) (parts (Path (task_name ip)) @ parts (Path dn))"
          using o by (simp add: pjoin_def)
        ultimately show ?thesis using o w' staged by simp
      qed
    qed
  qed
qed

text \<open>
  A task that returns \<^verbatim>\<open>results\<close> when asked for \<^verbatim>\<open>backward_dir\<close>: the returned
  name is in the output.
\<close>

theorem execute_returns_task_dir_witness:
  "backward_dir_name ip0 = ''backward_dir'' \<and>
   fst (execute plain_lib renaming_task ip0 world0) = Inr (pjoin (Path ''task.000'') (Path ''results'')) \<and>
   trace (snd (execute plain_lib renaming_task ip0 world0)) =
     [Chdir [''work'', ''task.000''],
      RunTask ''backward_dir'' ''log'' [''OUTCAR''] (PDict []) (PDict []) (Inr ''results''),
      Chdir [''work'']]"
proof -
  let ?x = "execute plain_lib renaming_task ip0 world0"
  have ok: "?x = (Inr (PPath False [''task.000'', ''results'']), snd ?x)"
    by (simp add: prod_eq_iff execute_def set_directory_def stage_and_run_def call_run_task_def
          normalize_config_def mkdir_def chdir_def symlink_to_def isfile_def is_dir_def
          locate_def Path_def pjoin_def path_name_def path_str_def Let_def plain_lib_def
          renaming_task_def world0_def ip0_def work_dir_loc_def)
  from execute_returns_task_dir [OF ok] show ?thesis
    by (simp add: execute_def set_directory_def stage_and_run_def call_run_task_def
          normalize_config_def mkdir_def chdir_def symlink_to_def isfile_def is_dir_def
          locate_def Path_def pjoin_def path_name_def path_str_def Let_def plain_lib_def
          renaming_task_def world0_def ip0_def work_dir_loc_def)
qed

section \<open>Where the fatal error is raised\<close>




section \<open>An absent optional artifact\<close>

text \<open>
  C7. When \<^verbatim>\<open>optional_artifact\<close> is missing from the input record or is \<^verbatim>\<open>None\<close>,
  \<^verbatim>\<open>execute\<close> fails while it reads the record and changes nothing.
\<close>

theorem execute_optional_artifact_absent:
  assumes "optional_artifact ip = Missing \<or> optional_artifact ip = PyNone"
  shows "\<exists>e. execute L T ip w = (Inl e, w) \<and> (input_error L T ip e)"
proof (cases rule: execute_cases [of L T ip])
  case (input e)
  from execute_input_error [OF this] input show ?thesis by blast
next
  case (staged v rc d)
  with assms show ?thesis by simp
qed

text \<open>
  \<^verbatim>\<open>None\<close> has no \<^verbatim>\<open>items\<close>, a missing key is a \<^verbatim>\<open>KeyError\<close>; the empty
  mapping runs.
\<close>

theorem execute_optional_artifact_absent_witness:
  "fst (execute plain_lib poscar_task (ip0\<lparr>optional_artifact := PyNone\<rparr>) world0) =
     Inl (AttributeError ''items'') \<and>
   fst (execute plain_lib poscar_task (ip0\<lparr>optional_artifact := Missing\<rparr>) world0) =
     Inl (KeyError ''optional_artifact'') \<and>
   fst (execute plain_lib poscar_task (ip0\<lparr>optional_artifact := Val []\<rparr>) world0) =
     Inr (PPath False [''task.000'', ''backward_dir''])"
proof -
  have a: "optional_artifact (ip0\<lparr>optional_artifact := PyNone\<rparr>) = Missing \<or>
           optional_artifact (ip0\<lparr>optional_artifact := PyNone\<rparr>) = PyNone" by simp
  have b: "optional_artifact (ip0\<lparr>optional_artifact := Missing\<rparr>) = Missing \<or>
           optional_artifact (ip0\<lparr>optional_artifact := Missing\<rparr>) = PyNone" by simp
  from execute_optional_artifact_absent [OF a, of plain_lib poscar_task world0]
       execute_optional_artifact_absent [OF b, of plain_lib poscar_task world0]
  show ?thesis by (simp add: execute_def set_directory_def stage_and_run_def call_run_task_def
        normalize_config_def mkdir_def chdir_def symlink_to_def isfile_def is_dir_def locate_def
        Path_def pjoin_def path_name_def path_str_def Let_def plain_lib_def poscar_task_def
        log_task_def world0_def ip0_def)
qed

section \<open>Strict and lenient normalisation\<close>

text \<open>
  C8. For a run configuration that normalises to \<open>d\<close>, that the lenient check accepts
  and the strict check rejects with \<open>e\<close>: \<^verbatim>\<open>normalize_config\<close> called without
  \<^verbatim>\<open>strict\<close> is strict and returns \<open>e\<close>, while \<^verbatim>\<open>execute\<close> calls it with
  \<^verbatim>\<open>strict=False\<close>, goes on to the staging directory and hands \<open>d\<close> to
  \<^verbatim>\<open>run_task\<close>.
\<close>

theorem normalize_config_strictness:
  assumes norm: "normalize_value L (args T) data = Inr d"
    and lenient: "check_value L (args T) d False = None"
    and strict: "check_value L (args T) d True = Some e"
    and cfg: "map_of (config ip) ''run'' = Some data"
    and given: "data \<noteq> PNone"
    and art: "optional_artifact ip = Val od"
  shows "normalize_config L T (Some data) None = Inl e \<and>
         normalize_config L T (Some data) (Some True) = Inl e \<and>
         normalize_config L T (Some data) (Some False) = Inr d \<and>
         execute L T ip w =
           (case set_directory (Path (task_name ip))
                   (stage_and_run T (mandatory_paths L T ip w) (optional_paths L ip w (map fst od))
                      (backward_dir_name ip) (log_name ip) (backward_list ip) d (optional_input ip)) w of
              (Inl e', w') \<Rightarrow> (Inl e', w')
            | (Inr bdn, w') \<Rightarrow> (Inr (pjoin (Path (task_name ip)) (Path bdn)), w'))"
proof -
  from norm lenient have l: "normalize_config L T (Some data) (Some False) = Inr d"
    by (simp add: normalize_config_def)
  with given have "normalize_config L T (Some (if data \<noteq> PNone then data else PDict [])) (Some False) = Inr d"
    by simp
  from execute_staged [OF cfg this art, of w] l norm strict show ?thesis
    by (simp add: normalize_config_def)
qed

text \<open>
  The undeclared key \<^verbatim>\<open>foo\<close>: rejected by the routine on its own, accepted by
  \<^verbatim>\<open>execute\<close>, which passes it to \<^verbatim>\<open>run_task\<close> together with the default of
  \<^verbatim>\<open>command\<close>.
\<close>

theorem normalize_config_strictness_witness:
  "normalize_config plain_lib poscar_task (Some (PDict [(''foo'', PInt 1)])) None =
     Inl (ArgumentKeyError ''foo'') \<and>
   fst (execute plain_lib poscar_task (ip0\<lparr>config := [(''run'', PDict [(''foo'', PInt 1)])]\<rparr>) world0) =
     Inr (PPath False [''task.000'', ''backward_dir'']) \<and>
   trace (snd (execute plain_lib poscar_task
                 (ip0\<lparr>config := [(''run'', PDict [(''foo'', PInt 1)])]\<rparr>) world0)) =
     [Chdir [''work'', ''task.000''],
      RunTask ''backward_dir'' ''log'' [''OUTCAR'']
        (PDict [(''foo'', PInt 1), (''command'', PStr ''vasp'')]) (PDict []) (Inr ''backward_dir''),
      Chdir [''work'']]"
proof -
  let ?data = "PDict [(''foo'', PInt 1)]"
  let ?d = "PDict [(''foo'', PInt 1), (''command'', PStr ''vasp'')]"
  let ?ip = "ip0\<lparr>config := [(''run'', ?data)]\<rparr>"
  have norm: "normalize_value plain_lib (args poscar_task) ?data = Inr ?d"
    by (simp add: plain_lib_def poscar_task_def)
  have lenient: "check_value plain_lib (args poscar_task) ?d False = None"
    by (simp add: plain_lib_def poscar_task_def)
  have strict: "check_value plain_lib (args poscar_task) ?d True = Some (ArgumentKeyError ''foo'')"
    by (simp add: plain_lib_def poscar_task_def)
  have cfg: "map_of (config ?ip) ''run'' = Some ?data" by simp
  have given: "?data \<noteq> PNone" by simp
  have art: "optional_artifact ?ip = Val [(''aux'', PPath True [''in'', ''task.000'', ''extra.json''])]"
    by (simp add: ip0_def)
  from normalize_config_strictness [OF norm lenient strict cfg given art, of world0]
  show ?thesis by (simp add: execute_def set_directory_def stage_and_run_def call_run_task_def
        normalize_config_def mkdir_def chdir_def symlink_to_def isfile_def is_dir_def locate_def
        Path_def pjoin_def path_name_def path_str_def Let_def plain_lib_def poscar_task_def
        log_task_def world0_def ip0_def mandatory_paths_def optional_paths_def input_path_def)
qed

section \<open>Running again over a staged directory\<close>

text \<open>
  C9. The existing staging directory is accepted, existing links are not: when the
  staging directory exists, the mandatory files are present and the staging directory
  already holds an entry under the link name of a mandatory file or of a present optional
  file, \<^verbatim>\<open>execute\<close> fails with \<^verbatim>\<open>FileExistsError\<close>, \<^verbatim>\<open>run_task\<close> is not invoked
  and the working directory is restored.
\<close>

theorem execute_stale_link_fails:
  assumes cfg: "map_of (config ip) ''run'' = Some v"
    and norm: "normalize_config L T (Some (if v \<noteq> PNone then v else PDict [])) (Some False) = Inr rc"
    and art: "optional_artifact ip = Val d"
    and here: "is_dir w (cwd w)"
    and exists: "nodes w (work_dir_loc ip w) = Some Dir"
    and present: "\<forall>p\<in>set (mandatory_paths L T ip w). isfile w p"
    and stale: "\<exists>p\<in>set (mandatory_paths L T ip w @
                          filter (isfile w) (optional_paths L ip w (map fst d))).
                  nodes w (link_loc (work_dir_loc ip w) p) \<noteq> None"
  shows "\<exists>q w'. execute L T ip w = (Inl (FileExistsError q), w') \<and>
           run_task_calls (trace w') = run_task_calls (trace w) \<and> cwd w' = cwd w"
proof -
  let ?q = "work_dir_loc ip w"
  let ?inp = "mandatory_paths L T ip w"
  let ?opt = "optional_paths L ip w (map fst d)"
  let ?body = "stage_and_run T ?inp ?opt
     (backward_dir_name ip) (log_name ip) (backward_list ip) rc (optional_input ip)"
  let ?w1 = "entered (locate (cwd w) (Path (task_name ip))) w"
  from exists have m: "mkdir (locate (cwd w) (Path (task_name ip))) w = (Inr (), w)"
    by (simp add: mkdir_existing work_dir_loc_def)
  from present have a1: "\<forall>p\<in>set (?inp @ filter (isfile ?w1) ?opt). isfile ?w1 p" by auto
  from stale have a2: "\<exists>p\<in>set (?inp @ filter (isfile ?w1) ?opt).
      link_loc (cwd ?w1) p = [] \<or> nodes ?w1 (link_loc (cwd ?w1) p) \<noteq> None"
    by (simp add: work_dir_loc_def) blast
  from link_mandatory_stale [OF a1 a2] obtain q w2
    where l: "link_mandatory (?inp @ filter (isfile ?w1) ?opt) ?w1 = (Inl (FileExistsError q), w2)"
    by blast
  then have b: "?body ?w1 = (Inl (FileExistsError q), w2)"
    by (simp add: stage_and_run_links)
  note f2 = link_mandatory_frame [OF l]
  from here f2 have d2: "is_dir w2 (cwd w)" by (auto simp: is_dir_def)
  from set_directory_run [where body = "?body", OF m b] d2
  have "set_directory (Path (task_name ip)) ?body w = (Inl (FileExistsError q), entered (cwd w) w2)"
    by simp
  with execute_staged [OF cfg norm art, of w]
  have "execute L T ip w = (Inl (FileExistsError q), entered (cwd w) w2)" by simp
  moreover from f2 have "run_task_calls (trace (entered (cwd w) w2)) = run_task_calls (trace w)"
    by simp
  ultimately show ?thesis by simp
qed

text \<open>The world after a first run holds the link \<^verbatim>\<open>POSCAR\<close>.\<close>

theorem execute_stale_link_fails_witness:
  "nodes world_after_run [''work'', ''task.000''] = Some Dir \<and>
   nodes world_after_run [''work'', ''task.000'', ''POSCAR''] =
     Some (Link [''in'', ''task.000'', ''POSCAR'']) \<and>
   fst (execute plain_lib poscar_task ip0 world_after_run) =
     Inl (FileExistsError [''work'', ''task.000'', ''POSCAR'']) \<and>
   run_task_calls (trace (snd (execute plain_lib poscar_task ip0 world_after_run))) =
     run_task_calls (trace world_after_run)"
proof -
  have cfg: "map_of (config ip0) ''run'' = Some (PDict [])" by (simp add: ip0_def)
  have norm: "normalize_config plain_lib poscar_task
      (Some (if PDict [] \<noteq> PNone then PDict [] else PDict [])) (Some False)
      = Inr (PDict [(''command'', PStr ''vasp'')])"
    by (simp add: normalize_config_def plain_lib_def poscar_task_def)
  have art: "optional_artifact ip0 = Val [(''aux'', PPath True [''in'', ''task.000'', ''extra.json''])]"
    by (simp add: ip0_def)
  have here: "is_dir world_after_run (cwd world_after_run)"
    by (simp add: world_after_run_eq is_dir_def world0_def)
  have exists: "nodes world_after_run (work_dir_loc ip0 world_after_run) = Some Dir"
    by (simp add: world_after_run_eq work_dir_loc_def locate_def Path_def ip0_def)
  have present: "\<forall>p\<in>set (mandatory_paths plain_lib poscar_task ip0 world_after_run).
      isfile world_after_run p"
    by (simp add: world_after_run_eq mandatory_paths_def input_path_def poscar_task_def isfile_def
          plain_lib_def ip0_def world0_def locate_def Path_def pjoin_def)
  have stale: "\<exists>p\<in>set (mandatory_paths plain_lib poscar_task ip0 world_after_run @
        filter (isfile world_after_run)
          (optional_paths plain_lib ip0 world_after_run
             (map fst [(''aux'', PPath True [''in'', ''task.000'', ''extra.json''])]))).
      nodes world_after_run (link_loc (work_dir_loc ip0 world_after_run) p) \<noteq> None"
    by (simp add: world_after_run_eq mandatory_paths_def input_path_def poscar_task_def
          work_dir_loc_def link_loc_def path_name_def plain_lib_def ip0_def locate_def Path_def
          pjoin_def)
  from execute_stale_link_fails [OF cfg norm art here exists present stale]
  show ?thesis
    by (simp add: world_after_run_eq execute_def set_directory_def stage_and_run_def
          call_run_task_def normalize_config_def mkdir_def chdir_def symlink_to_def isfile_def
          is_dir_def locate_def Path_def pjoin_def path_name_def path_str_def Let_def
          plain_lib_def poscar_task_def log_task_def world0_def ip0_def)
qed

text \<open>The same invocation, run a second time, fails on the link of the first run.\<close>

theorem execute_rerun_fails:
  "fst (execute plain_lib poscar_task ip0 world0) = Inr (PPath False [''task.000'', ''backward_dir'']) \<and>
   fst (execute plain_lib poscar_task ip0 (snd (execute plain_lib poscar_task ip0 world0))) =
     Inl (FileExistsError [''work'', ''task.000'', ''POSCAR''])"
  by (simp add: execute_def set_directory_def stage_and_run_def call_run_task_def
        normalize_config_def mkdir_def chdir_def symlink_to_def isfile_def is_dir_def locate_def
        Path_def pjoin_def path_name_def path_str_def Let_def plain_lib_def poscar_task_def
        log_task_def world0_def ip0_def)

section \<open>The values of the optional artifacts\<close>

text \<open>
  C10. Two inputs that differ only in the path values of \<^verbatim>\<open>optional_artifact\<close>, with
  the same keys in the same order, give the same result and the same world.
\<close>

theorem execute_ignores_artifact_values:
  assumes "map fst d = map fst d'"
  shows "execute L T (ip\<lparr>optional_artifact := Val d\<rparr>) w =
         execute L T (ip\<lparr>optional_artifact := Val d'\<rparr>) w"
  using assms by (simp add: execute_def Let_def split: option.splits sum.splits)

text \<open>The key \<^verbatim>\<open>extra.json\<close> with two different values.\<close>

theorem execute_ignores_artifact_values_witness:
  "execute plain_lib poscar_task (ip0\<lparr>optional_artifact := Val [(''extra.json'', PPath True [''a''])]\<rparr>) world0 =
   execute plain_lib poscar_task (ip0\<lparr>optional_artifact := Val [(''extra.json'', PPath False [''b'', ''c''])]\<rparr>) world0"
proof -
  have h: "map fst [(''extra.json'', PPath True [''a''])] = map fst [(''extra.json'', PPath False [''b'', ''c''])]"
    by simp
  from execute_ignores_artifact_values [OF h] show ?thesis .
qed

end
